theory Spec2Isabelle
  imports Main "HOL-Library.Word"
begin

section \<open>Python values, classes and exceptions\<close>

text \<open>
  The converters of \<^verbatim>\<open>pyckson/parsers/base.py\<close> work on a decoded JSON tree: \<^verbatim>\<open>None\<close>,
  booleans, integers, floats, strings, lists and string-keyed dictionaries. Their results
  add enum members to these. A float is kept as its 64-bit pattern (no arithmetic is done
  on it); an enum member is the pair of the name of its class and its own name.
\<close>

datatype pyval =
    PNone
  | PBool bool
  | PInt int
  | PFloat "64 word"
  | PStr string
  | PList "pyval list"
  | PDict "(string \<times> pyval) list"
  | PEnum string string

text \<open>
  The classes that occur as the \<^verbatim>\<open>cls\<close> of a converter or as a parameter annotation.
  \<open>T_Union\<close> carries \<^verbatim>\<open>__union_params__\<close>; \<open>T_Enum\<close> is the base class \<^verbatim>\<open>enum.Enum\<close>,
  \<open>T_EnumClass n\<close> the enumeration named \<open>n\<close>, \<open>T_Class n\<close> any other class.
\<close>

datatype pytype =
    T_NoneType
  | T_bool
  | T_int
  | T_float
  | T_str
  | T_list
  | T_dict
  | T_set
  | T_Enum
  | T_EnumClass string
  | T_Class string
  | T_Union "pytype list"

text \<open>\<^verbatim>\<open>cls.__name__\<close>.\<close>

fun type_name :: "pytype \<Rightarrow> string" where
  "type_name T_NoneType = ''NoneType''"
| "type_name T_bool = ''bool''"
| "type_name T_int = ''int''"
| "type_name T_float = ''float''"
| "type_name T_str = ''str''"
| "type_name T_list = ''list''"
| "type_name T_dict = ''dict''"
| "type_name T_set = ''set''"
| "type_name T_Enum = ''Enum''"
| "type_name (T_EnumClass n) = n"
| "type_name (T_Class n) = n"
| "type_name (T_Union ts) = ''Union''"

text \<open>
  \<^verbatim>\<open>isinstance(value, cls)\<close>. \<^verbatim>\<open>bool\<close> is a subclass of \<^verbatim>\<open>int\<close>; every enum member is
  an instance of \<^verbatim>\<open>Enum\<close> and of its own class; a value is an instance of a union when
  it is an instance of one of its arms. No value of the tree is a set or an instance of
  another class.
\<close>

fun isinstance :: "pyval \<Rightarrow> pytype \<Rightarrow> bool" where
  "isinstance v T_NoneType = (case v of PNone \<Rightarrow> True | _ \<Rightarrow> False)"
| "isinstance v T_bool = (case v of PBool b \<Rightarrow> True | _ \<Rightarrow> False)"
| "isinstance v T_int = (case v of PBool b \<Rightarrow> True | PInt n \<Rightarrow> True | _ \<Rightarrow> False)"
| "isinstance v T_float = (case v of PFloat f \<Rightarrow> True | _ \<Rightarrow> False)"
| "isinstance v T_str = (case v of PStr s \<Rightarrow> True | _ \<Rightarrow> False)"
| "isinstance v T_list = (case v of PList xs \<Rightarrow> True | _ \<Rightarrow> False)"
| "isinstance v T_dict = (case v of PDict kvs \<Rightarrow> True | _ \<Rightarrow> False)"
| "isinstance v T_set = False"
| "isinstance v T_Enum = (case v of PEnum c m \<Rightarrow> True | _ \<Rightarrow> False)"
| "isinstance v (T_EnumClass c') = (case v of PEnum c m \<Rightarrow> c = c' | _ \<Rightarrow> False)"
| "isinstance v (T_Class n) = False"
| "isinstance v (T_Union ts) = list_ex (isinstance v) ts"

text \<open>
  A message built by an f-string or by \<^verbatim>\<open>str.format\<close> is kept as its pieces: the literal
  text, and every formatted value as the value itself. The first four exceptions are the
  ones the sources raise; \<open>ConfigurationError\<close> is the failure that the specification names
  for an invalid model.
\<close>

datatype fragment = Lit string | Fmt pyval

datatype error =
    ParserException "fragment list"
  | TypeError "fragment list"
  | ValueError "fragment list"
  | AttributeError "fragment list"
  | ConfigurationError "fragment list"

definition dq :: string where
  "dq = [CHR 0x22]"

text \<open>
  \<^verbatim>\<open>cls(value)\<close> for a value that is an instance of \<^verbatim>\<open>cls\<close>: \<^verbatim>\<open>int\<close> turns a boolean
  into 0 or 1, the other scalar classes, \<^verbatim>\<open>list\<close> and \<^verbatim>\<open>dict\<close> return an equal value,
  an enumeration returns its member; \<^verbatim>\<open>Enum\<close> itself has no member to return, and
  \<^verbatim>\<open>NoneType\<close>, a union and the remaining classes cannot be called this way. The
  converters below call a class only on one of its instances; on any other value the
  call is answered by a \<^verbatim>\<open>TypeError\<close> here.
\<close>

definition cannot_create :: "pytype \<Rightarrow> pyval \<Rightarrow> error + pyval" where
  "cannot_create t v = Inl (TypeError [Lit (''cannot create '' @ type_name t @ '' from ''), Fmt v])"

fun construct :: "pytype \<Rightarrow> pyval \<Rightarrow> error + pyval" where
  "construct T_int v =
     (case v of PInt n \<Rightarrow> Inr (PInt n) | PBool b \<Rightarrow> Inr (PInt (if b then 1 else 0))
      | _ \<Rightarrow> cannot_create T_int v)"
| "construct T_bool v = (case v of PBool b \<Rightarrow> Inr (PBool b) | _ \<Rightarrow> cannot_create T_bool v)"
| "construct T_float v = (case v of PFloat f \<Rightarrow> Inr (PFloat f) | _ \<Rightarrow> cannot_create T_float v)"
| "construct T_str v = (case v of PStr s \<Rightarrow> Inr (PStr s) | _ \<Rightarrow> cannot_create T_str v)"
| "construct T_list v = (case v of PList xs \<Rightarrow> Inr (PList xs) | _ \<Rightarrow> cannot_create T_list v)"
| "construct T_dict v = (case v of PDict kvs \<Rightarrow> Inr (PDict kvs) | _ \<Rightarrow> cannot_create T_dict v)"
| "construct (T_EnumClass c) v =
     (case v of
        PEnum c' m \<Rightarrow> if c = c' then Inr (PEnum c' m)
                     else Inl (ValueError [Fmt v, Lit ('' is not a valid '' @ c)])
      | _ \<Rightarrow> cannot_create (T_EnumClass c) v)"
| "construct T_Enum v = Inl (ValueError [Fmt v, Lit '' is not a valid Enum''])"
| "construct T_NoneType v = cannot_create T_NoneType v"
| "construct T_set v = cannot_create T_set v"
| "construct (T_Class n) v = cannot_create (T_Class n) v"
| "construct (T_Union ts) v = cannot_create (T_Union ts) v"

text \<open>\<^verbatim>\<open>hash(value)\<close> succeeds: lists and dictionaries are unhashable.\<close>

definition hashable :: "pyval \<Rightarrow> bool" where
  "hashable v = (case v of PList xs \<Rightarrow> False | PDict kvs \<Rightarrow> False | _ \<Rightarrow> True)"

text \<open>
  An enumeration: its \<^verbatim>\<open>__name__\<close> and its \<^verbatim>\<open>__members__\<close>, the ordered mapping from
  every declared name (aliases included) to the name of the member it denotes. Iterating
  over the class yields the members themselves, in definition order, without the aliases.
\<close>

record enum_class =
  enum_name :: string
  members :: "(string \<times> string) list"

definition enum_iter :: "enum_class \<Rightarrow> string list" where
  "enum_iter c = map snd (filter (\<lambda>(n, m). n = m) (members c))"

section \<open>The converters of \<^verbatim>\<open>pyckson/parsers/base.py\<close>\<close>

text \<open>
  A converter is an object with a method \<^verbatim>\<open>parse\<close> and, for some classes, an attribute
  \<^verbatim>\<open>cls\<close>: the record holds the attribute when the instance has one, and the method.
\<close>

record parser =
  cls :: "pytype option"
  parse :: "pyval \<Rightarrow> error + pyval"

definition Parser :: parser where
  "Parser = \<lparr>parser.cls = None, parse = (\<lambda>json_value. Inr PNone)\<rparr>"

definition BasicParser :: parser where
  "BasicParser = \<lparr>parser.cls = None, parse = (\<lambda>json_value. Inr json_value)\<rparr>"

definition BasicParserWithCast_parse :: "pytype \<Rightarrow> pyval \<Rightarrow> error + pyval" where
  "BasicParserWithCast_parse c json_value =
     (if \<not> isinstance json_value c
      then Inl (ParserException
             [Lit dq, Fmt json_value, Lit (dq @ '' is supposed to be a '' @ type_name c @ ''.'')])
      else construct c json_value)"

definition BasicParserWithCast :: "pytype \<Rightarrow> parser" where
  "BasicParserWithCast c = \<lparr>parser.cls = Some c, parse = BasicParserWithCast_parse c\<rparr>"

text \<open>
  The list comprehension converts the items from left to right; the first item whose
  conversion raises ends it with that exception.
\<close>

fun parse_items :: "(pyval \<Rightarrow> error + pyval) \<Rightarrow> pyval list \<Rightarrow> error + pyval list" where
  "parse_items f [] = Inr []"
| "parse_items f (item # items) =
     (case f item of
        Inl e \<Rightarrow> Inl e
      | Inr y \<Rightarrow> (case parse_items f items of Inl e \<Rightarrow> Inl e | Inr ys \<Rightarrow> Inr (y # ys)))"

definition list_items :: "pyval \<Rightarrow> pyval list" where
  "list_items v = (case v of PList items \<Rightarrow> items | _ \<Rightarrow> [])"

definition ListParser_parse :: "parser \<Rightarrow> pyval \<Rightarrow> error + pyval" where
  "ListParser_parse sub_parser json_value =
     (if \<not> isinstance json_value T_list
      then Inl (ParserException [Lit dq, Fmt json_value, Lit (dq @ '' is supposed to be a list.'')])
      else (case parse_items (parse sub_parser) (list_items json_value) of
              Inl e \<Rightarrow> Inl e
            | Inr ys \<Rightarrow> Inr (PList ys)))"

definition ListParser :: "parser \<Rightarrow> parser" where
  "ListParser sub_parser = \<lparr>parser.cls = Some T_list, parse = ListParser_parse sub_parser\<rparr>"

text \<open>
  The message of both enum converters: the value and the name of the class.
\<close>

definition not_a_valid_value :: "pyval \<Rightarrow> string \<Rightarrow> fragment list" where
  "not_a_valid_value val n =
     [Lit dq, Fmt val, Lit (dq @ '' is not a valid value for '' @ dq @ n @ dq @ '' Enum.'')]"

text \<open>
  \<^verbatim>\<open>value not in self.cls.__members__\<close> hashes the value and compares it with the declared
  names, which only a string can equal; \<^verbatim>\<open>self.cls[value]\<close> is the member of that name.
\<close>

definition DefaultEnumParser_parse :: "enum_class \<Rightarrow> pyval \<Rightarrow> error + pyval" where
  "DefaultEnumParser_parse c val =
     (if \<not> hashable val then Inl (TypeError [Lit ''unhashable type: '', Fmt val])
      else (case val of
              PStr s \<Rightarrow>
                (case map_of (members c) s of
                   None \<Rightarrow> Inl (ParserException (not_a_valid_value val (enum_name c)))
                 | Some m \<Rightarrow> Inr (PEnum (enum_name c) m))
            | _ \<Rightarrow> Inl (ParserException (not_a_valid_value val (enum_name c)))))"

definition DefaultEnumParser :: "enum_class \<Rightarrow> parser" where
  "DefaultEnumParser c =
     \<lparr>parser.cls = Some (T_EnumClass (enum_name c)), parse = DefaultEnumParser_parse c\<rparr>"

text \<open>
  The constructor of the case-insensitive converter fills the dictionary \<^verbatim>\<open>values\<close>
  member by member, a later member replacing an earlier one under the same key, and sets
  \<^verbatim>\<open>cls\<close> to \<^verbatim>\<open>Enum\<close>. \<open>lower\<close> stands for \<^verbatim>\<open>str.lower\<close>. Only a string has the method
  \<^verbatim>\<open>lower\<close>.
\<close>

definition lowercase_lookup :: "(string \<Rightarrow> string) \<Rightarrow> enum_class \<Rightarrow> (string \<rightharpoonup> pyval)" where
  "lowercase_lookup lower c =
     foldl (\<lambda>values member. values(lower member \<mapsto> PEnum (enum_name c) member))
       Map.empty (enum_iter c)"

definition CaseInsensitiveEnumParser_parse ::
  "(string \<Rightarrow> string) \<Rightarrow> (string \<rightharpoonup> pyval) \<Rightarrow> pyval \<Rightarrow> error + pyval" where
  "CaseInsensitiveEnumParser_parse lower values val =
     (case val of
        PStr s \<Rightarrow>
          (case values (lower s) of
             None \<Rightarrow> Inl (ParserException (not_a_valid_value val (type_name T_Enum)))
           | Some member \<Rightarrow> Inr member)
      | _ \<Rightarrow> Inl (AttributeError [Fmt val, Lit '' has no attribute lower'']))"

definition CaseInsensitiveEnumParser :: "(string \<Rightarrow> string) \<Rightarrow> enum_class \<Rightarrow> parser" where
  "CaseInsensitiveEnumParser lower c =
     \<lparr>parser.cls = Some T_Enum,
      parse = CaseInsensitiveEnumParser_parse lower (lowercase_lookup lower c)\<rparr>"

definition BasicDictParser :: parser where
  "BasicDictParser = \<lparr>parser.cls = None, parse = (\<lambda>json_value. Inr json_value)\<rparr>"

fun parse_entries ::
  "(pyval \<Rightarrow> error + pyval) \<Rightarrow> (string \<times> pyval) list \<Rightarrow> error + (string \<times> pyval) list" where
  "parse_entries f [] = Inr []"
| "parse_entries f (kv # kvs) =
     (case f (snd kv) of
        Inl e \<Rightarrow> Inl e
      | Inr y \<Rightarrow> (case parse_entries f kvs of Inl e \<Rightarrow> Inl e | Inr r \<Rightarrow> Inr ((fst kv, y) # r)))"

definition TypingDictParser_parse :: "parser \<Rightarrow> pyval \<Rightarrow> error + pyval" where
  "TypingDictParser_parse value_parser json_value =
     (case json_value of
        PDict kvs \<Rightarrow>
          (case parse_entries (parse value_parser) kvs of Inl e \<Rightarrow> Inl e | Inr r \<Rightarrow> Inr (PDict r))
      | _ \<Rightarrow> Inl (AttributeError [Fmt json_value, Lit '' has no attribute items'']))"

definition TypingDictParser :: "parser \<Rightarrow> parser" where
  "TypingDictParser value_parser =
     \<lparr>parser.cls = None, parse = TypingDictParser_parse value_parser\<rparr>"

text \<open>
  The loop of \<^verbatim>\<open>UnionParser.parse\<close>: the test
  \<^verbatim>\<open>hasattr(parser, 'cls') and isinstance(json_value, parser.cls)\<close> of one alternative,
  and the walk through the alternatives, which returns at the first one that passes the
  test and raises after the last.
\<close>

definition shape_match :: "parser \<Rightarrow> pyval \<Rightarrow> bool" where
  "shape_match p json_value =
     (case parser.cls p of None \<Rightarrow> False | Some c \<Rightarrow> isinstance json_value c)"

fun UnionParser_parse :: "parser list \<Rightarrow> pyval \<Rightarrow> error + pyval" where
  "UnionParser_parse [] json_value =
     Inl (TypeError [Fmt json_value, Lit '' is not compatible with Union type in Pyckson.''])"
| "UnionParser_parse (p # value_parsers) json_value =
     (if shape_match p json_value then parse p json_value
      else UnionParser_parse value_parsers json_value)"

definition UnionParser :: "parser list \<Rightarrow> parser" where
  "UnionParser value_parsers = \<lparr>parser.cls = None, parse = UnionParser_parse value_parsers\<rparr>"

section \<open>The model builder of \<^verbatim>\<open>pyckson/model/builder.py\<close>\<close>

text \<open>
  What \<^verbatim>\<open>inspect\<close> reports of a class: a parameter with its name, its default and its
  annotation (\<open>None\<close> for \<^verbatim>\<open>Parameter.empty\<close>) and its kind; a member that is a function
  with its parameters, or is not callable; the class with its \<^verbatim>\<open>__name__\<close> and the
  pairs that \<^verbatim>\<open>getmembers\<close> lists.
\<close>

datatype param_kind =
    POSITIONAL_ONLY
  | POSITIONAL_OR_KEYWORD
  | VAR_POSITIONAL
  | KEYWORD_ONLY
  | VAR_KEYWORD

record Parameter =
  name :: string
  default :: "pyval option"
  annotation :: "pytype option"
  kind :: param_kind

datatype member = Function "Parameter list" | NotCallable

record pyclass =
  class_name :: string
  class_members :: "(string \<times> member) list"

definition signature :: "member \<Rightarrow> error + Parameter list" where
  "signature m =
     (case m of
        Function parameters \<Rightarrow> Inr parameters
      | NotCallable \<Rightarrow> Inl (TypeError [Lit ''is not a callable object'']))"

text \<open>
  Modelled from the spec: the classes \<^verbatim>\<open>PycksonAttribute\<close> and \<^verbatim>\<open>PycksonModel\<close> of
  \<^verbatim>\<open>pyckson.model.model\<close> are not among the sources. The attribute holds the six
  arguments the builder passes, in their order (section 3 of the specification:
  source name, external name, declared type, optional flag, bound converter, here one for
  each direction); the model is the ordered sequence of its attributes.
\<close>

record ('s, 'p) PycksonAttribute =
  python_name :: string
  json_name :: string
  declared_type :: pytype
  optional :: bool
  serializer :: 's
  parser :: 'p

record ('s, 'p) PycksonModel =
  attributes :: "('s, 'p) PycksonAttribute list"

text \<open>
  Modelled from the spec: the constructor of \<^verbatim>\<open>PycksonModel\<close>, which \<^verbatim>\<open>build_model\<close> calls
  on the list of attributes, is not among the sources. Section 3 of the specification:
  the external name is unique within a class's model, and a model that violates this is
  rejected at build time; section 4.1, step 3: assembling the ordered attribute list into
  the model enforces this invariant and fails with \<^verbatim>\<open>ConfigurationError\<close> if it is violated.
\<close>

definition PycksonModel_init ::
  "('s, 'p) PycksonAttribute list \<Rightarrow> error + ('s, 'p) PycksonModel" where
  "PycksonModel_init attrs =
     (if distinct (map json_name attrs) then Inr \<lparr>attributes = attrs\<rparr>
      else Inl (ConfigurationError [Lit ''duplicate external name'']))"

text \<open>
  The builder's fields. The providers and the name rule come from modules that are not
  among the sources: a provider's \<^verbatim>\<open>get(type, cls, name)\<close> returns a converter or raises,
  the name rule maps a name to a name. The field \<^verbatim>\<open>type_info\<close> is read by no method.
\<close>

record ('s, 'p) PycksonModelBuilder =
  cls :: pyclass
  serializer_provider :: "pytype \<Rightarrow> pyclass \<Rightarrow> string \<Rightarrow> error + 's"
  parser_provider :: "pytype \<Rightarrow> pyclass \<Rightarrow> string \<Rightarrow> error + 'p"
  name_rule :: "string \<Rightarrow> string"

fun find_member :: "(string \<times> member) list \<Rightarrow> error + member" where
  "find_member [] = Inl (ValueError [Lit ''no constructor_found''])"
| "find_member (m # ms) = (if fst m = ''__init__'' then Inr (snd m) else find_member ms)"

definition find_constructor :: "('s, 'p) PycksonModelBuilder \<Rightarrow> error + member" where
  "find_constructor b = find_member (class_members (PycksonModelBuilder.cls b))"

text \<open>
  \<^verbatim>\<open>__union_params__\<close> of a union, and the test of \<^verbatim>\<open>is_optional_type\<close>: a union of
  two arms whose second arm has \<^verbatim>\<open>None\<close> as an instance.
\<close>

definition union_params :: "pytype \<Rightarrow> pytype list" where
  "union_params t = (case t of T_Union ts \<Rightarrow> ts | _ \<Rightarrow> [])"

definition is_optional_type :: "pytype \<Rightarrow> bool" where
  "is_optional_type param_type =
     (case param_type of
        T_Union ts \<Rightarrow> length ts = 2 \<and> isinstance PNone (ts ! 1)
      | _ \<Rightarrow> False)"

text \<open>
  The call \<^verbatim>\<open>PycksonAttribute(python_name, json_name, t, opt, serializer_provider.get(provided,
  cls, python_name), parser_provider.get(provided, cls, python_name))\<close> that ends both
  branches of \<^verbatim>\<open>build_attribute\<close>: the arguments are evaluated from left to right, so an
  exception of the serializer provider comes first. The branch for an optional type passes
  \<^verbatim>\<open>str\<close> to both providers, the other branch the annotation.
\<close>

definition make_attribute ::
  "('s, 'p) PycksonModelBuilder \<Rightarrow> string \<Rightarrow> string \<Rightarrow> pytype \<Rightarrow> bool \<Rightarrow> pytype \<Rightarrow>
   error + ('s, 'p) PycksonAttribute" where
  "make_attribute b py_name js_name t opt provided =
     (case serializer_provider b provided (PycksonModelBuilder.cls b) py_name of
        Inl e \<Rightarrow> Inl e
      | Inr s \<Rightarrow>
          (case parser_provider b provided (PycksonModelBuilder.cls b) py_name of
             Inl e \<Rightarrow> Inl e
           | Inr p \<Rightarrow>
               Inr \<lparr>python_name = py_name, json_name = js_name, declared_type = t,
                    optional = opt, serializer = s, parser = p\<rparr>))"

definition build_attribute ::
  "('s, 'p) PycksonModelBuilder \<Rightarrow> Parameter \<Rightarrow> error + ('s, 'p) PycksonAttribute" where
  "build_attribute b parameter =
     (let py_name = name parameter;
          js_name = name_rule b (name parameter);
          opt = (default parameter \<noteq> None)
      in case annotation parameter of
           None \<Rightarrow>
             Inl (TypeError [Lit (''parameter '' @ name parameter @ '' in class '' @
                                  class_name (PycksonModelBuilder.cls b) @ '' has no type'')])
         | Some param_type \<Rightarrow>
             if kind parameter \<noteq> POSITIONAL_OR_KEYWORD
             then Inl (TypeError [Lit ''pyckson only handle named parameters''])
             else if is_optional_type param_type
             then make_attribute b py_name js_name (union_params param_type ! 0) True T_str
             else make_attribute b py_name js_name param_type opt param_type)"

fun build_attributes ::
  "('s, 'p) PycksonModelBuilder \<Rightarrow> Parameter list \<Rightarrow> ('s, 'p) PycksonAttribute list \<Rightarrow>
   error + ('s, 'p) PycksonAttribute list" where
  "build_attributes b [] attrs = Inr attrs"
| "build_attributes b (parameter # parameters) attrs =
     (if name parameter \<noteq> ''self''
      then (case build_attribute b parameter of
              Inl e \<Rightarrow> Inl e
            | Inr attribute \<Rightarrow> build_attributes b parameters (attrs @ [attribute]))
      else build_attributes b parameters attrs)"

definition build_model :: "('s, 'p) PycksonModelBuilder \<Rightarrow> error + ('s, 'p) PycksonModel" where
  "build_model b =
     (case find_constructor b of
        Inl e \<Rightarrow> Inl e
      | Inr constructor \<Rightarrow>
          (case signature constructor of
             Inl e \<Rightarrow> Inl e
           | Inr parameters \<Rightarrow>
               (case build_attributes b parameters [] of
                  Inl e \<Rightarrow> Inl e
                | Inr attrs \<Rightarrow> PycksonModel_init attrs)))"

section \<open>Example classes\<close>

text \<open>
  Concrete inputs for the evaluations below: lowercasing of ASCII letters for \<^verbatim>\<open>str.lower\<close>,
  two enumerations (\<open>Colour\<close> with the alias \<^verbatim>\<open>CRIMSON = RED\<close>, \<open>Mixed\<close> with two members
  whose names differ in case only), providers that answer with the type they were asked
  for, a name rule that removes underscores, and a class \<^verbatim>\<open>Foo\<close> with a given constructor
  signature.
\<close>

definition lower_char :: "char \<Rightarrow> char" where
  "lower_char ch =
     (if 65 \<le> (of_char ch :: nat) \<and> (of_char ch :: nat) \<le> 90
      then (case ch of Char b0 b1 b2 b3 b4 b5 b6 b7 \<Rightarrow> Char b0 b1 b2 b3 b4 True b6 b7)
      else ch)"

definition ascii_lower :: "string \<Rightarrow> string" where
  "ascii_lower s = map lower_char s"

definition Colour :: enum_class where
  "Colour = \<lparr>enum_name = ''Colour'',
             members = [(''RED'', ''RED''), (''GREEN'', ''GREEN''), (''CRIMSON'', ''RED'')]\<rparr>"

definition Mixed :: enum_class where
  "Mixed = \<lparr>enum_name = ''Mixed'', members = [(''a'', ''a''), (''A'', ''A'')]\<rparr>"

definition tag_provider :: "pytype \<Rightarrow> pyclass \<Rightarrow> string \<Rightarrow> error + pytype" where
  "tag_provider t c n = Inr t"

definition drop_underscores :: "string \<Rightarrow> string" where
  "drop_underscores n = filter (\<lambda>ch. ch \<noteq> CHR ''_'') n"

definition typed_param :: "string \<Rightarrow> pytype \<Rightarrow> pyval option \<Rightarrow> Parameter" where
  "typed_param n t d = \<lparr>name = n, default = d, annotation = Some t, kind = POSITIONAL_OR_KEYWORD\<rparr>"

definition untyped_param :: "string \<Rightarrow> Parameter" where
  "untyped_param n = \<lparr>name = n, default = None, annotation = None, kind = POSITIONAL_OR_KEYWORD\<rparr>"

definition self_param :: Parameter where
  "self_param = untyped_param ''self''"

definition var_args :: Parameter where
  "var_args = \<lparr>name = ''args'', default = None, annotation = Some T_int, kind = VAR_POSITIONAL\<rparr>"

definition Foo :: "Parameter list \<Rightarrow> pyclass" where
  "Foo ps = \<lparr>class_name = ''Foo'',
            class_members = [(''__doc__'', NotCallable), (''__init__'', Function ps)]\<rparr>"

definition Foo_builder ::
  "Parameter list \<Rightarrow> (string \<Rightarrow> string) \<Rightarrow> (pytype, pytype) PycksonModelBuilder" where
  "Foo_builder ps rule =
     \<lparr>cls = Foo ps, serializer_provider = tag_provider, parser_provider = tag_provider,
      name_rule = rule\<rparr>"

definition Bare_builder :: "(pytype, pytype) PycksonModelBuilder" where
  "Bare_builder =
     \<lparr>cls = \<lparr>class_name = ''Bare'', class_members = [(''__doc__'', NotCallable)]\<rparr>,
      serializer_provider = tag_provider, parser_provider = tag_provider, name_rule = id\<rparr>"

section \<open>Properties of the converters\<close>

lemma parse_items_all_ok:
  "(\<forall>x \<in> set xs. \<exists>y. f x = Inr y) \<Longrightarrow>
   \<exists>ys. parse_items f xs = Inr ys \<and> length ys = length xs \<and> (\<forall>i < length xs. f (xs ! i) = Inr (ys ! i))"
proof (induction xs)
  case Nil
  then show ?case by simp
next
  case (Cons x xs)
  then obtain y where y: "f x = Inr y" by auto
  from Cons obtain ys where ys: "parse_items f xs = Inr ys" "length ys = length xs"
    "\<forall>i < length xs. f (xs ! i) = Inr (ys ! i)" by auto
  have "\<forall>i < length (x # xs). f ((x # xs) ! i) = Inr ((y # ys) ! i)"
    using y ys(3) by (auto simp: nth_Cons split: nat.splits)
  with y ys show ?case by auto
qed

lemma parse_items_first_error:
  "i < length xs \<Longrightarrow> f (xs ! i) = Inl e \<Longrightarrow> (\<forall>j < i. \<exists>y. f (xs ! j) = Inr y) \<Longrightarrow>
   parse_items f xs = Inl e"
proof (induction xs arbitrary: i)
  case Nil
  then show ?case by simp
next
  case (Cons x xs)
  show ?case
  proof (cases i)
    case 0
    with Cons.prems show ?thesis by simp
  next
    case (Suc k)
    with Cons.prems obtain y where y: "f x = Inr y" by fastforce
    have "\<forall>j < k. \<exists>y. f (xs ! j) = Inr y"
      using Cons.prems(3) Suc by fastforce
    with Cons.IH [of k] Cons.prems Suc have "parse_items f xs = Inl e" by simp
    with y show ?thesis by simp
  qed
qed

lemma list_items_PList [simp]: "list_items (PList xs) = xs"
  by (simp add: list_items_def)

lemma isinstance_list_iff: "isinstance v T_list \<longleftrightarrow> (\<exists>xs. v = PList xs)"
  by (cases v) auto

text \<open>
  C5. A List converter applied to a list whose items the element converter all converts
  returns a list of the same length, the i-th item being the element converter's result
  for the i-th input item; when the element converter raises for an item, the first such
  exception is the outcome; applied to a value that is not a list it raises a
  \<^verbatim>\<open>ParserException\<close> whose message holds the value and the words "is supposed to be a list".
\<close>

theorem ListParser_parse_spec:
  "((\<forall>x \<in> set xs. \<exists>y. parse sub x = Inr y) \<longrightarrow>
      (\<exists>ys. parse (ListParser sub) (PList xs) = Inr (PList ys) \<and> length ys = length xs \<and>
            (\<forall>i < length xs. parse sub (xs ! i) = Inr (ys ! i)))) \<and>
   (\<forall>i e. i < length xs \<and> parse sub (xs ! i) = Inl e \<and> (\<forall>j < i. \<exists>y. parse sub (xs ! j) = Inr y) \<longrightarrow>
      parse (ListParser sub) (PList xs) = Inl e) \<and>
   (\<not> isinstance v T_list \<longrightarrow>
      parse (ListParser sub) v =
        Inl (ParserException [Lit dq, Fmt v, Lit (dq @ '' is supposed to be a list.'')]))"
proof (intro conjI impI allI)
  assume ok: "\<forall>x \<in> set xs. \<exists>y. parse sub x = Inr y"
  from parse_items_all_ok [OF ok] obtain ys where
    "parse_items (parse sub) xs = Inr ys" "length ys = length xs"
    "\<forall>i < length xs. parse sub (xs ! i) = Inr (ys ! i)" by blast
  then show "\<exists>ys. parse (ListParser sub) (PList xs) = Inr (PList ys) \<and> length ys = length xs \<and>
            (\<forall>i < length xs. parse sub (xs ! i) = Inr (ys ! i))"
    by (simp add: ListParser_def ListParser_parse_def)
next
  fix i e
  assume "i < length xs \<and> parse sub (xs ! i) = Inl e \<and> (\<forall>j < i. \<exists>y. parse sub (xs ! j) = Inr y)"
  then have "parse_items (parse sub) xs = Inl e"
    using parse_items_first_error [of i xs "parse sub" e] by blast
  then show "parse (ListParser sub) (PList xs) = Inl e"
    by (simp add: ListParser_def ListParser_parse_def)
next
  assume "\<not> isinstance v T_list"
  then show "parse (ListParser sub) v =
        Inl (ParserException [Lit dq, Fmt v, Lit (dq @ '' is supposed to be a list.'')])"
    by (simp add: ListParser_def ListParser_parse_def)
qed

theorem ListParser_parse_spec_witness:
  "parse (ListParser (BasicParserWithCast T_str)) (PList [PStr ''a'', PStr ''b''])
     = Inr (PList [PStr ''a'', PStr ''b'']) \<and>
   parse (ListParser (BasicParserWithCast T_str)) (PList [PStr ''a'', PInt 3])
     = parse (BasicParserWithCast T_str) (PInt 3) \<and>
   parse (ListParser (BasicParserWithCast T_str)) (PStr ''not-a-list'')
     = Inl (ParserException [Lit dq, Fmt (PStr ''not-a-list''), Lit (dq @ '' is supposed to be a list.'')])"
proof -
  let ?sub = "BasicParserWithCast T_str"
  have a: "parse ?sub (PStr ''a'') = Inr (PStr ''a'')" and b: "parse ?sub (PStr ''b'') = Inr (PStr ''b'')"
    by (simp_all add: BasicParserWithCast_def BasicParserWithCast_parse_def)
  obtain e where e: "parse ?sub (PInt 3) = Inl e"
    by (simp add: BasicParserWithCast_def BasicParserWithCast_parse_def)
  note spec1 = ListParser_parse_spec [of "[PStr ''a'', PStr ''b'']" ?sub "PStr ''not-a-list''"]
  note spec2 = ListParser_parse_spec [of "[PStr ''a'', PInt 3]" ?sub "PStr ''not-a-list''"]
  have ok: "\<forall>x \<in> set [PStr ''a'', PStr ''b'']. \<exists>y. parse ?sub x = Inr y"
    using a b by simp
  from spec1 ok obtain ys where ys:
    "parse (ListParser ?sub) (PList [PStr ''a'', PStr ''b'']) = Inr (PList ys)"
    "length ys = length [PStr ''a'', PStr ''b'']"
    "\<forall>i < length [PStr ''a'', PStr ''b'']. parse ?sub ([PStr ''a'', PStr ''b''] ! i) = Inr (ys ! i)"
    by blast
  from ys(3) have "parse ?sub (PStr ''a'') = Inr (ys ! 0)" "parse ?sub (PStr ''b'') = Inr (ys ! 1)"
    by (auto simp: nth_Cons split: nat.splits)
  with a b have "ys ! 0 = PStr ''a''" "ys ! 1 = PStr ''b''" by simp_all
  moreover from ys(2) have "length ys = 2" by simp
  ultimately have "ys = [PStr ''a'', PStr ''b'']"
    by (cases ys; cases "tl ys") auto
  with ys(1) have first: "parse (ListParser ?sub) (PList [PStr ''a'', PStr ''b''])
     = Inr (PList [PStr ''a'', PStr ''b''])" by simp
  have "(1::nat) < length [PStr ''a'', PInt 3] \<and> parse ?sub ([PStr ''a'', PInt 3] ! 1) = Inl e \<and>
        (\<forall>j < (1::nat). \<exists>y. parse ?sub ([PStr ''a'', PInt 3] ! j) = Inr y)"
    using a e by simp
  with spec2 have "parse (ListParser ?sub) (PList [PStr ''a'', PInt 3]) = Inl e" by blast
  with e have second: "parse (ListParser ?sub) (PList [PStr ''a'', PInt 3]) = parse ?sub (PInt 3)"
    by simp
  have "\<not> isinstance (PStr ''not-a-list'') T_list" by simp
  with spec1 have third: "parse (ListParser ?sub) (PStr ''not-a-list'')
     = Inl (ParserException [Lit dq, Fmt (PStr ''not-a-list''), Lit (dq @ '' is supposed to be a list.'')])"
    by blast
  from first second third show ?thesis by blast
qed

lemma construct_scalar:
  "C \<in> {T_bool, T_int, T_float, T_str} \<Longrightarrow> isinstance v C \<Longrightarrow>
   \<exists>y. construct C v = Inr y \<and> isinstance y C \<and>
       (y = v \<or> (\<exists>b. C = T_int \<and> v = PBool b \<and> y = PInt (if b then 1 else 0)))"
  by (cases v) auto

text \<open>
  C8. A converter with cast whose class \<open>C\<close> is one of the scalar classes \<^verbatim>\<open>bool\<close>, \<^verbatim>\<open>int\<close>,
  \<^verbatim>\<open>float\<close>, \<^verbatim>\<open>str\<close>: on an instance of \<open>C\<close> it returns \<^verbatim>\<open>C(value)\<close>, which is an instance
  of \<open>C\<close> and is the value itself, except that \<^verbatim>\<open>int\<close> turns a boolean into 0 or 1; on any
  other value it raises a \<^verbatim>\<open>ParserException\<close> that holds the value and the name of \<open>C\<close>.
\<close>

theorem BasicParserWithCast_parse_spec:
  "C \<in> {T_bool, T_int, T_float, T_str} \<Longrightarrow>
   (isinstance v C \<longrightarrow>
      (\<exists>y. parse (BasicParserWithCast C) v = Inr y \<and> construct C v = Inr y \<and> isinstance y C \<and>
           (y = v \<or> (\<exists>b. C = T_int \<and> v = PBool b \<and> y = PInt (if b then 1 else 0))))) \<and>
   (\<not> isinstance v C \<longrightarrow>
      parse (BasicParserWithCast C) v =
        Inl (ParserException [Lit dq, Fmt v, Lit (dq @ '' is supposed to be a '' @ type_name C @ ''.'')]))"
  using construct_scalar [of C v]
  by (auto simp: BasicParserWithCast_def BasicParserWithCast_parse_def)

theorem BasicParserWithCast_parse_spec_witness:
  "parse (BasicParserWithCast T_int) (PBool True) = Inr (PInt 1) \<and>
   parse (BasicParserWithCast T_int) (PStr ''7'') =
     Inl (ParserException [Lit dq, Fmt (PStr ''7''), Lit (dq @ '' is supposed to be a int.'')])"
  using BasicParserWithCast_parse_spec [of T_int "PBool True"]
        BasicParserWithCast_parse_spec [of T_int "PStr ''7''"]
  by simp

lemma map_of_in_keys: "s \<in> fst ` set kvs \<longleftrightarrow> (\<exists>m. map_of kvs s = Some m)"
  by (metis domIff dom_map_of_conv_image_fst not_Some_eq)

text \<open>
  C6. The default enum converter, given a string: when the string is one of the declared
  names of the enumeration (compared as strings, so with exact case) it returns the member
  of that name; otherwise it raises a \<^verbatim>\<open>ParserException\<close> that holds the string and the
  name of the enumeration. So the strings it accepts are exactly the declared names.
\<close>

theorem DefaultEnumParser_parse_spec:
  "(\<forall>m. map_of (members c) s = Some m \<longrightarrow>
        parse (DefaultEnumParser c) (PStr s) = Inr (PEnum (enum_name c) m)) \<and>
   (s \<notin> fst ` set (members c) \<longrightarrow>
        parse (DefaultEnumParser c) (PStr s) =
          Inl (ParserException (not_a_valid_value (PStr s) (enum_name c)))) \<and>
   ((\<exists>y. parse (DefaultEnumParser c) (PStr s) = Inr y) \<longleftrightarrow> s \<in> fst ` set (members c))"
proof -
  have h: "hashable (PStr s)" by (simp add: hashable_def)
  show ?thesis
  proof (cases "map_of (members c) s")
    case None
    then have "s \<notin> fst ` set (members c)" by (simp add: map_of_in_keys)
    with None h show ?thesis
      by (simp add: DefaultEnumParser_def DefaultEnumParser_parse_def)
  next
    case (Some m)
    then have "s \<in> fst ` set (members c)" using map_of_in_keys by fastforce
    with Some h show ?thesis
      by (simp add: DefaultEnumParser_def DefaultEnumParser_parse_def)
  qed
qed

theorem DefaultEnumParser_parse_spec_witness:
  "parse (DefaultEnumParser Colour) (PStr ''GREEN'') = Inr (PEnum ''Colour'' ''GREEN'') \<and>
   parse (DefaultEnumParser Colour) (PStr ''green'') =
     Inl (ParserException (not_a_valid_value (PStr ''green'') ''Colour''))"
  using DefaultEnumParser_parse_spec [of Colour "''GREEN''"]
        DefaultEnumParser_parse_spec [of Colour "''green''"]
  by (simp add: Colour_def)

lemma foldl_upd_lookup:
  "foldl (\<lambda>vs m. vs(f m \<mapsto> g m)) init xs k =
     (if filter (\<lambda>m. f m = k) xs = [] then init k
      else Some (g (last (filter (\<lambda>m. f m = k) xs))))"
  by (induction xs rule: rev_induct) auto

lemma lowercase_lookup_eq:
  "lowercase_lookup lower c k =
     (if filter (\<lambda>m. lower m = k) (enum_iter c) = [] then None
      else Some (PEnum (enum_name c) (last (filter (\<lambda>m. lower m = k) (enum_iter c)))))"
  unfolding lowercase_lookup_def by (simp add: foldl_upd_lookup)

lemma last_filter_unique:
  "distinct (map f xs) \<Longrightarrow> m \<in> set xs \<Longrightarrow> f m = k \<Longrightarrow> last (filter (\<lambda>x. f x = k) xs) = m"
proof -
  assume d: "distinct (map f xs)" and m: "m \<in> set xs" and k: "f m = k"
  have ne: "filter (\<lambda>x. f x = k) xs \<noteq> []" using m k by (auto simp: filter_empty_conv)
  then have "last (filter (\<lambda>x. f x = k) xs) \<in> set (filter (\<lambda>x. f x = k) xs)" by (rule last_in_set)
  then have "last (filter (\<lambda>x. f x = k) xs) \<in> set xs" "f (last (filter (\<lambda>x. f x = k) xs)) = k" by auto
  with d m k show ?thesis by (metis distinct_map inj_onD)
qed

text \<open>
  C7, as the code has it. The case-insensitive enum converter looks the lowercased string
  up in the dictionary its constructor filled from the members (aliases are not members).
  A string whose lowercase form is the lowercase form of no member name is rejected with a
  \<^verbatim>\<open>ParserException\<close>; otherwise the result is the last declared member whose lowercased
  name equals the lowercased string. When no two member names have the same lowercase form
  this is the one member whose name the string matches without regard to case.
\<close>

theorem CaseInsensitiveEnumParser_parse_spec:
  "((\<forall>m \<in> set (enum_iter c). lower m \<noteq> lower s) \<longrightarrow>
      parse (CaseInsensitiveEnumParser lower c) (PStr s) =
        Inl (ParserException (not_a_valid_value (PStr s) ''Enum''))) \<and>
   ((\<exists>m \<in> set (enum_iter c). lower m = lower s) \<longrightarrow>
      parse (CaseInsensitiveEnumParser lower c) (PStr s) =
        Inr (PEnum (enum_name c) (last (filter (\<lambda>m. lower m = lower s) (enum_iter c))))) \<and>
   (distinct (map lower (enum_iter c)) \<longrightarrow>
      (\<forall>m \<in> set (enum_iter c). lower m = lower s \<longrightarrow>
         parse (CaseInsensitiveEnumParser lower c) (PStr s) = Inr (PEnum (enum_name c) m)))"
proof (intro conjI impI ballI)
  assume "\<forall>m \<in> set (enum_iter c). lower m \<noteq> lower s"
  then have "filter (\<lambda>m. lower m = lower s) (enum_iter c) = []" by (simp add: filter_empty_conv)
  then show "parse (CaseInsensitiveEnumParser lower c) (PStr s) =
        Inl (ParserException (not_a_valid_value (PStr s) ''Enum''))"
    by (simp add: CaseInsensitiveEnumParser_def CaseInsensitiveEnumParser_parse_def lowercase_lookup_eq)
next
  assume "\<exists>m \<in> set (enum_iter c). lower m = lower s"
  then have "filter (\<lambda>m. lower m = lower s) (enum_iter c) \<noteq> []" by (auto simp: filter_empty_conv)
  then show "parse (CaseInsensitiveEnumParser lower c) (PStr s) =
        Inr (PEnum (enum_name c) (last (filter (\<lambda>m. lower m = lower s) (enum_iter c))))"
    by (simp add: CaseInsensitiveEnumParser_def CaseInsensitiveEnumParser_parse_def lowercase_lookup_eq)
next
  fix m
  assume d: "distinct (map lower (enum_iter c))" and m: "m \<in> set (enum_iter c)" and k: "lower m = lower s"
  have ne: "filter (\<lambda>m. lower m = lower s) (enum_iter c) \<noteq> []" using m k by (auto simp: filter_empty_conv)
  have "last (filter (\<lambda>x. lower x = lower s) (enum_iter c)) = m"
    using last_filter_unique [OF d m k] .
  with ne show "parse (CaseInsensitiveEnumParser lower c) (PStr s) = Inr (PEnum (enum_name c) m)"
    by (simp add: CaseInsensitiveEnumParser_def CaseInsensitiveEnumParser_parse_def lowercase_lookup_eq)
qed

lemma enum_iter_Colour: "enum_iter Colour = [''RED'', ''GREEN'']"
  by (simp add: enum_iter_def Colour_def)

lemma enum_iter_Mixed: "enum_iter Mixed = [''a'', ''A'']"
  by (simp add: enum_iter_def Mixed_def)

lemma enum_name_Colour: "enum_name Colour = ''Colour''"
  by (simp add: Colour_def)

lemma enum_name_Mixed: "enum_name Mixed = ''Mixed''"
  by (simp add: Mixed_def)

theorem CaseInsensitiveEnumParser_parse_spec_witness:
  "parse (CaseInsensitiveEnumParser ascii_lower Colour) (PStr ''Green'') = Inr (PEnum ''Colour'' ''GREEN'') \<and>
   parse (CaseInsensitiveEnumParser ascii_lower Colour) (PStr ''blue'') =
     Inl (ParserException (not_a_valid_value (PStr ''blue'') ''Enum''))"
  using CaseInsensitiveEnumParser_parse_spec [of Colour ascii_lower "''Green''"]
        CaseInsensitiveEnumParser_parse_spec [of Colour ascii_lower "''blue''"]
  by (simp add: enum_iter_Colour enum_name_Colour ascii_lower_def lower_char_def)

text \<open>
  The enumeration \<open>Mixed\<close> has the members \<^verbatim>\<open>a\<close> and \<^verbatim>\<open>A\<close>. The string \<^verbatim>\<open>a\<close> is the exact
  name of the first; the default converter returns that member, the case-insensitive
  converter returns the member \<^verbatim>\<open>A\<close>.
\<close>

theorem CaseInsensitiveEnumParser_collision:
  "''a'' \<in> set (enum_iter Mixed) \<and>
   parse (DefaultEnumParser Mixed) (PStr ''a'') = Inr (PEnum ''Mixed'' ''a'') \<and>
   parse (CaseInsensitiveEnumParser ascii_lower Mixed) (PStr ''a'') = Inr (PEnum ''Mixed'' ''A'') \<and>
   parse (CaseInsensitiveEnumParser ascii_lower Mixed) (PStr ''a'') \<noteq> Inr (PEnum ''Mixed'' ''a'')"
proof -
  have "parse (DefaultEnumParser Mixed) (PStr ''a'') = Inr (PEnum ''Mixed'' ''a'')"
    by (simp add: DefaultEnumParser_def DefaultEnumParser_parse_def hashable_def Mixed_def)
  moreover have "parse (CaseInsensitiveEnumParser ascii_lower Mixed) (PStr ''a'') = Inr (PEnum ''Mixed'' ''A'')"
    by (simp add: CaseInsensitiveEnumParser_def CaseInsensitiveEnumParser_parse_def lowercase_lookup_def
        enum_iter_Mixed enum_name_Mixed ascii_lower_def lower_char_def)
  ultimately show ?thesis by (simp add: enum_iter_Mixed)
qed

lemma UnionParser_parse_first:
  "(\<forall>q \<in> set pre. \<not> shape_match q v) \<Longrightarrow> shape_match p v \<Longrightarrow>
   UnionParser_parse (pre @ p # post) v = parse p v"
  by (induction pre) auto

lemma UnionParser_parse_none:
  "(\<forall>q \<in> set vps. \<not> shape_match q v) \<Longrightarrow>
   UnionParser_parse vps v = Inl (TypeError [Fmt v, Lit '' is not compatible with Union type in Pyckson.''])"
  by (induction vps) auto

lemma parse_UnionParser [simp]: "parse (UnionParser vps) = UnionParser_parse vps"
  by (simp add: UnionParser_def)

text \<open>
  C3, as the code has it. The Union converter tests the alternatives in their declared
  order with \<^verbatim>\<open>hasattr(parser, 'cls') and isinstance(json_value, parser.cls)\<close> and returns
  what the first alternative that passes the test makes of the value (its result or its
  exception). When no alternative passes the test it raises a \<^verbatim>\<open>TypeError\<close> whose message
  is the value followed by the fixed words "is not compatible with Union type in
  Pyckson.": the message holds the value and nothing of the alternatives.
\<close>

theorem UnionParser_parse_spec:
  "((\<forall>q \<in> set pre. \<not> shape_match q v) \<and> shape_match p v \<longrightarrow>
      parse (UnionParser (pre @ p # post)) v = parse p v) \<and>
   ((\<forall>q \<in> set vps. \<not> shape_match q v) \<longrightarrow>
      parse (UnionParser vps) v =
        Inl (TypeError [Fmt v, Lit '' is not compatible with Union type in Pyckson.'']))"
  using UnionParser_parse_first [of pre v p post] UnionParser_parse_none [of vps v] by simp

lemma shape_match_simps:
  "shape_match (ListParser sub) v = isinstance v T_list"
  "shape_match (BasicParserWithCast c) v = isinstance v c"
  "shape_match BasicParser v = False"
  "shape_match (UnionParser vps) v = False"
  by (simp_all add: shape_match_def ListParser_def BasicParserWithCast_def BasicParser_def UnionParser_def)

theorem UnionParser_parse_spec_witness:
  "parse (UnionParser [ListParser BasicParser, BasicParserWithCast T_int, BasicParserWithCast T_bool]) (PBool True)
     = parse (BasicParserWithCast T_int) (PBool True) \<and>
   parse (UnionParser [ListParser BasicParser, BasicParserWithCast T_str]) (PInt 5)
     = Inl (TypeError [Fmt (PInt 5), Lit '' is not compatible with Union type in Pyckson.''])"
  using UnionParser_parse_spec [of "[ListParser BasicParser]" "PBool True" "BasicParserWithCast T_int"
          "[BasicParserWithCast T_bool]" "[ListParser BasicParser, BasicParserWithCast T_str]"]
        UnionParser_parse_spec [of "[]" "PInt 5" "BasicParser" "[]" "[ListParser BasicParser, BasicParserWithCast T_str]"]
  by (simp add: shape_match_simps)

text \<open>
  Two different unions, the same value, the same exception: nothing in it tells the
  declared union.
\<close>

theorem UnionParser_error_same_for_all_unions:
  "parse (UnionParser [ListParser BasicParser, BasicParserWithCast T_str]) (PInt 5)
     = Inl (TypeError [Fmt (PInt 5), Lit '' is not compatible with Union type in Pyckson.'']) \<and>
   parse (UnionParser [BasicParserWithCast T_bool]) (PInt 5)
     = Inl (TypeError [Fmt (PInt 5), Lit '' is not compatible with Union type in Pyckson.''])"
  by (simp add: shape_match_simps)

lemma UnionParser_parse_filter:
  "UnionParser_parse (filter (\<lambda>p. parser.cls p \<noteq> None) vps) v = UnionParser_parse vps v"
  by (induction vps) (auto simp: shape_match_def)

lemma UnionParser_parse_replace:
  "UnionParser_parse (map (\<lambda>p. if parser.cls p = None then p\<lparr>parse := g p\<rparr> else p) vps) v
     = UnionParser_parse vps v"
  by (induction vps) (auto simp: shape_match_def)

text \<open>
  C10. An alternative without the attribute \<^verbatim>\<open>cls\<close> is never selected by the Union
  converter: removing all such alternatives does not change the outcome, and neither does
  replacing their \<^verbatim>\<open>parse\<close> methods by any others, so their conversion is never used.
  Hence, when every alternative that has a \<^verbatim>\<open>cls\<close> does not have the value as an instance
  of it, the converter raises its \<^verbatim>\<open>TypeError\<close>, whatever the alternatives without \<^verbatim>\<open>cls\<close>
  could have made of the value.
\<close>

theorem UnionParser_skips_alternatives_without_cls:
  "parse (UnionParser vps) v = parse (UnionParser (filter (\<lambda>p. parser.cls p \<noteq> None) vps)) v \<and>
   parse (UnionParser (map (\<lambda>p. if parser.cls p = None then p\<lparr>parse := g p\<rparr> else p) vps)) v
     = parse (UnionParser vps) v \<and>
   ((\<forall>p \<in> set vps. \<forall>c. parser.cls p = Some c \<longrightarrow> \<not> isinstance v c) \<longrightarrow>
      parse (UnionParser vps) v =
        Inl (TypeError [Fmt v, Lit '' is not compatible with Union type in Pyckson.'']))"
proof (intro conjI impI)
  show "parse (UnionParser vps) v = parse (UnionParser (filter (\<lambda>p. parser.cls p \<noteq> None) vps)) v"
    using UnionParser_parse_filter [of vps v] by simp
  show "parse (UnionParser (map (\<lambda>p. if parser.cls p = None then p\<lparr>parse := g p\<rparr> else p) vps)) v
     = parse (UnionParser vps) v"
    by (simp add: UnionParser_parse_replace)
  assume "\<forall>p \<in> set vps. \<forall>c. parser.cls p = Some c \<longrightarrow> \<not> isinstance v c"
  then have "\<forall>q \<in> set vps. \<not> shape_match q v"
    by (auto simp: shape_match_def split: option.splits)
  then show "parse (UnionParser vps) v =
        Inl (TypeError [Fmt v, Lit '' is not compatible with Union type in Pyckson.''])"
    by (simp add: UnionParser_parse_none)
qed

theorem UnionParser_skips_alternatives_without_cls_witness:
  "parse BasicParser (PStr ''x'') = Inr (PStr ''x'') \<and>
   parse (UnionParser [BasicParser, BasicParserWithCast T_int]) (PStr ''x'')
     = Inl (TypeError [Fmt (PStr ''x''), Lit '' is not compatible with Union type in Pyckson.''])"
proof -
  have "\<forall>p \<in> set [BasicParser, BasicParserWithCast T_int]. \<forall>c. parser.cls p = Some c \<longrightarrow> \<not> isinstance (PStr ''x'') c"
    by (simp add: BasicParser_def BasicParserWithCast_def)
  with UnionParser_skips_alternatives_without_cls
         [of "[BasicParser, BasicParserWithCast T_int]" "PStr ''x''" "\<lambda>p. parse p",
          THEN conjunct2, THEN conjunct2]
  have "parse (UnionParser [BasicParser, BasicParserWithCast T_int]) (PStr ''x'')
     = Inl (TypeError [Fmt (PStr ''x''), Lit '' is not compatible with Union type in Pyckson.''])"
    by blast
  moreover have "parse BasicParser (PStr ''x'') = Inr (PStr ''x'')"
    by (simp add: BasicParser_def)
  ultimately show ?thesis by blast
qed

section \<open>Properties of the model builder\<close>

lemma find_member_none:
  "(\<forall>m \<in> set ms. fst m \<noteq> ''__init__'') \<Longrightarrow> find_member ms = Inl (ValueError [Lit ''no constructor_found''])"
  by (induction ms) auto

lemma build_attribute_no_annotation:
  "annotation p = None \<Longrightarrow>
   build_attribute b p =
     Inl (TypeError [Lit (''parameter '' @ name p @ '' in class '' @
                          class_name (PycksonModelBuilder.cls b) @ '' has no type'')])"
  by (simp add: build_attribute_def)

lemma build_attribute_bad_kind:
  "annotation p \<noteq> None \<Longrightarrow> kind p \<noteq> POSITIONAL_OR_KEYWORD \<Longrightarrow>
   build_attribute b p = Inl (TypeError [Lit ''pyckson only handle named parameters''])"
  by (auto simp: build_attribute_def)

lemma build_attribute_other_branch:
  "annotation p = Some t \<Longrightarrow> kind p = POSITIONAL_OR_KEYWORD \<Longrightarrow> \<not> is_optional_type t \<Longrightarrow>
   build_attribute b p = make_attribute b (name p) (name_rule b (name p)) t (default p \<noteq> None) t"
  by (simp add: build_attribute_def)

lemma build_attributes_first_error:
  "(\<forall>q \<in> set pre. name q = ''self'' \<or> (\<exists>a. build_attribute b q = Inr a)) \<Longrightarrow>
   name p \<noteq> ''self'' \<Longrightarrow> build_attribute b p = Inl e \<Longrightarrow>
   build_attributes b (pre @ p # post) acc = Inl e"
  by (induction pre arbitrary: acc) auto

lemma build_attributes_fails:
  "p \<in> set ps \<Longrightarrow> name p \<noteq> ''self'' \<Longrightarrow> build_attribute b p = Inl e \<Longrightarrow>
   \<exists>e'. build_attributes b ps acc = Inl e'"
proof (induction ps arbitrary: acc)
  case Nil
  then show ?case by simp
next
  case (Cons q qs)
  show ?case
  proof (cases "q = p")
    case True
    with Cons.prems show ?thesis by simp
  next
    case False
    with Cons.prems have "p \<in> set qs" by simp
    from Cons.IH [OF this Cons.prems(2,3)] show ?thesis
      by (auto split: sum.splits)
  qed
qed

lemma build_model_unfold:
  "find_constructor b = Inr (Function ps) \<Longrightarrow>
   build_model b =
     (case build_attributes b ps [] of Inl e \<Rightarrow> Inl e | Inr attrs \<Rightarrow> PycksonModel_init attrs)"
  by (simp add: build_model_def signature_def)

text \<open>
  C4. Building a model fails, and no model is returned, in each of these cases: the class
  has no member \<^verbatim>\<open>__init__\<close> (\<^verbatim>\<open>ValueError\<close>, "no constructor_found") or that member is not
  callable; a parameter has no annotation (\<^verbatim>\<open>TypeError\<close>, "parameter ... has no type"); a
  parameter is annotated but is not of the kind positional-or-keyword (\<^verbatim>\<open>TypeError\<close>,
  "pyckson only handle named parameters"). The parameter named \<^verbatim>\<open>self\<close> is the receiver
  and is not inspected. The exception that \<^verbatim>\<open>build_model\<close> raises is the one of the first
  parameter, in declaration order, whose attribute cannot be built.
\<close>

theorem build_model_rejects:
  "((\<forall>m \<in> set (class_members (PycksonModelBuilder.cls b)). fst m \<noteq> ''__init__'') \<longrightarrow>
      build_model b = Inl (ValueError [Lit ''no constructor_found''])) \<and>
   (find_constructor b = Inr NotCallable \<longrightarrow>
      build_model b = Inl (TypeError [Lit ''is not a callable object''])) \<and>
   (annotation p = None \<longrightarrow>
      build_attribute b p =
        Inl (TypeError [Lit (''parameter '' @ name p @ '' in class '' @
                             class_name (PycksonModelBuilder.cls b) @ '' has no type'')])) \<and>
   (annotation p \<noteq> None \<and> kind p \<noteq> POSITIONAL_OR_KEYWORD \<longrightarrow>
      build_attribute b p = Inl (TypeError [Lit ''pyckson only handle named parameters''])) \<and>
   (find_constructor b = Inr (Function ps) \<and> p \<in> set ps \<and> name p \<noteq> ''self'' \<and>
    (annotation p = None \<or> kind p \<noteq> POSITIONAL_OR_KEYWORD) \<longrightarrow>
      (\<exists>e. build_model b = Inl e)) \<and>
   (find_constructor b = Inr (Function (pre @ p # post)) \<and>
    (\<forall>q \<in> set pre. name q = ''self'' \<or> (\<exists>a. build_attribute b q = Inr a)) \<and>
    name p \<noteq> ''self'' \<and> build_attribute b p = Inl e \<longrightarrow>
      build_model b = Inl e)"
proof (intro conjI impI)
  assume "\<forall>m \<in> set (class_members (PycksonModelBuilder.cls b)). fst m \<noteq> ''__init__''"
  then show "build_model b = Inl (ValueError [Lit ''no constructor_found''])"
    by (simp add: build_model_def find_constructor_def find_member_none)
next
  assume "find_constructor b = Inr NotCallable"
  then show "build_model b = Inl (TypeError [Lit ''is not a callable object''])"
    by (simp add: build_model_def signature_def)
next
  assume "annotation p = None"
  then show "build_attribute b p =
        Inl (TypeError [Lit (''parameter '' @ name p @ '' in class '' @
                             class_name (PycksonModelBuilder.cls b) @ '' has no type'')])"
    by (rule build_attribute_no_annotation)
next
  assume "annotation p \<noteq> None \<and> kind p \<noteq> POSITIONAL_OR_KEYWORD"
  then show "build_attribute b p = Inl (TypeError [Lit ''pyckson only handle named parameters''])"
    by (simp add: build_attribute_bad_kind)
next
  assume a: "find_constructor b = Inr (Function ps) \<and> p \<in> set ps \<and> name p \<noteq> ''self'' \<and>
    (annotation p = None \<or> kind p \<noteq> POSITIONAL_OR_KEYWORD)"
  then obtain e where "build_attribute b p = Inl e"
    using build_attribute_no_annotation [of p b] build_attribute_bad_kind [of p b] by blast
  with a obtain e' where "build_attributes b ps [] = Inl e'"
    using build_attributes_fails [of p ps b e "[]"] by blast
  with a show "\<exists>e. build_model b = Inl e"
    by (simp add: build_model_unfold)
next
  assume a: "find_constructor b = Inr (Function (pre @ p # post)) \<and>
    (\<forall>q \<in> set pre. name q = ''self'' \<or> (\<exists>a. build_attribute b q = Inr a)) \<and>
    name p \<noteq> ''self'' \<and> build_attribute b p = Inl e"
  then have "build_attributes b (pre @ p # post) [] = Inl e"
    using build_attributes_first_error [of pre b p e post "[]"] by blast
  with a show "build_model b = Inl e"
    by (simp add: build_model_unfold)
qed

lemma build_attribute_plain:
  "build_attribute (Foo_builder ps rule) (typed_param n T_str d) =
     Inr \<lparr>python_name = n, json_name = rule n, declared_type = T_str, optional = (d \<noteq> None),
          serializer = T_str, parser = T_str\<rparr>"
  by (simp add: build_attribute_def make_attribute_def Foo_builder_def typed_param_def
      tag_provider_def is_optional_type_def)

lemma find_constructor_Foo: "find_constructor (Foo_builder ps rule) = Inr (Function ps)"
  by (simp add: find_constructor_def Foo_builder_def Foo_def)

theorem build_model_rejects_witness:
  "build_model Bare_builder = Inl (ValueError [Lit ''no constructor_found'']) \<and>
   build_attribute (Foo_builder [] id) (untyped_param ''bar'')
     = Inl (TypeError [Lit ''parameter bar in class Foo has no type'']) \<and>
   build_model (Foo_builder [self_param, typed_param ''a'' T_str None, var_args] id)
     = Inl (TypeError [Lit ''pyckson only handle named parameters''])"
proof -
  let ?ps = "[self_param, typed_param ''a'' T_str None, var_args]"
  let ?b = "Foo_builder ?ps id"
  let ?e = "TypeError [Lit ''pyckson only handle named parameters'']"
  have none: "\<forall>m \<in> set (class_members (PycksonModelBuilder.cls Bare_builder)). fst m \<noteq> ''__init__''"
    by (simp add: Bare_builder_def)
  from build_model_rejects [of Bare_builder "untyped_param ''bar''" "[]" "[]" "[]" ?e] none
  have first: "build_model Bare_builder = Inl (ValueError [Lit ''no constructor_found''])"
    by blast
  have "annotation (untyped_param ''bar'') = None"
    by (simp add: untyped_param_def)
  with build_model_rejects [of "Foo_builder [] id" "untyped_param ''bar''" "[]" "[]" "[]" ?e]
  have "build_attribute (Foo_builder [] id) (untyped_param ''bar'') =
        Inl (TypeError [Lit (''parameter '' @ name (untyped_param ''bar'') @ '' in class '' @
                 class_name (PycksonModelBuilder.cls (Foo_builder [] id)) @ '' has no type'')])"
    by blast
  then have second: "build_attribute (Foo_builder [] id) (untyped_param ''bar'')
     = Inl (TypeError [Lit ''parameter bar in class Foo has no type''])"
    by (simp add: untyped_param_def Foo_builder_def Foo_def)
  note spec = build_model_rejects [of ?b var_args ?ps "[self_param, typed_param ''a'' T_str None]" "[]" ?e]
  have k: "annotation var_args \<noteq> None \<and> kind var_args \<noteq> POSITIONAL_OR_KEYWORD"
    by (simp add: var_args_def)
  with spec have e: "build_attribute ?b var_args = Inl ?e" by blast
  have "find_constructor ?b = Inr (Function ([self_param, typed_param ''a'' T_str None] @ var_args # [])) \<and>
    (\<forall>q \<in> set [self_param, typed_param ''a'' T_str None].
        name q = ''self'' \<or> (\<exists>a. build_attribute ?b q = Inr a)) \<and>
    name var_args \<noteq> ''self'' \<and> build_attribute ?b var_args = Inl ?e"
    using e by (simp add: find_constructor_Foo build_attribute_plain self_param_def untyped_param_def
        var_args_def)
  with spec have third: "build_model ?b = Inl ?e" by blast
  from first second third show ?thesis by blast
qed

text \<open>
  C9. For a parameter whose annotation \<^verbatim>\<open>is_optional_type\<close> does not recognise as an
  optional type, the attribute that is built has its optional flag set exactly when the
  parameter has a default, and has the annotation as its declared type.
\<close>

theorem build_attribute_optional_iff_default:
  "annotation p = Some t \<and> \<not> is_optional_type t \<and> build_attribute b p = Inr a \<longrightarrow>
     optional a = (default p \<noteq> None) \<and> declared_type a = t"
proof (intro impI)
  assume h: "annotation p = Some t \<and> \<not> is_optional_type t \<and> build_attribute b p = Inr a"
  then have k: "kind p = POSITIONAL_OR_KEYWORD"
    using build_attribute_bad_kind [of p b] by auto
  with h have "make_attribute b (name p) (name_rule b (name p)) t (default p \<noteq> None) t = Inr a"
    using build_attribute_other_branch [of p t b] by simp
  then show "optional a = (default p \<noteq> None) \<and> declared_type a = t"
    by (auto simp: make_attribute_def split: sum.splits)
qed

theorem build_attribute_optional_iff_default_witness:
  "build_attribute (Foo_builder [] id) (typed_param ''b'' T_str (Some PNone)) =
     Inr \<lparr>python_name = ''b'', json_name = ''b'', declared_type = T_str, optional = True,
          serializer = T_str, parser = T_str\<rparr> \<and>
   optional \<lparr>python_name = ''b'', json_name = ''b'', declared_type = T_str, optional = True,
          serializer = T_str, parser = T_str\<rparr> = (default (typed_param ''b'' T_str (Some PNone)) \<noteq> None) \<and>
   build_attribute (Foo_builder [] id) (typed_param ''a'' T_str None) =
     Inr \<lparr>python_name = ''a'', json_name = ''a'', declared_type = T_str, optional = False,
          serializer = T_str, parser = T_str\<rparr> \<and>
   optional \<lparr>python_name = ''a'', json_name = ''a'', declared_type = T_str, optional = False,
          serializer = T_str, parser = T_str\<rparr> = (default (typed_param ''a'' T_str None) \<noteq> None)"
proof -
  let ?with = "\<lparr>python_name = ''b'', json_name = ''b'', declared_type = T_str, optional = True,
          serializer = T_str, parser = T_str\<rparr>"
  let ?without = "\<lparr>python_name = ''a'', json_name = ''a'', declared_type = T_str, optional = False,
          serializer = T_str, parser = T_str\<rparr>"
  have b: "build_attribute (Foo_builder [] id) (typed_param ''b'' T_str (Some PNone)) = Inr ?with"
    and a: "build_attribute (Foo_builder [] id) (typed_param ''a'' T_str None) = Inr ?without"
    by (simp_all add: build_attribute_plain)
  have t: "\<not> is_optional_type T_str"
    by (simp add: is_optional_type_def)
  have "annotation (typed_param ''b'' T_str (Some PNone)) = Some T_str"
    and "annotation (typed_param ''a'' T_str None) = Some T_str"
    by (simp_all add: typed_param_def)
  with a b t
    build_attribute_optional_iff_default [of "typed_param ''b'' T_str (Some PNone)" T_str "Foo_builder [] id" ?with]
    build_attribute_optional_iff_default [of "typed_param ''a'' T_str None" T_str "Foo_builder [] id" ?without]
  show ?thesis by blast
qed

lemma build_attribute_optional_branch:
  "annotation p = Some (T_Union [t, T_NoneType]) \<Longrightarrow> kind p = POSITIONAL_OR_KEYWORD \<Longrightarrow>
   build_attribute b p = make_attribute b (name p) (name_rule b (name p)) t True T_str"
  by (simp add: build_attribute_def is_optional_type_def union_params_def)

text \<open>
  C2. For the parameter \<^verbatim>\<open>a: Optional[int]\<close> the attribute that is built has the declared
  type \<^verbatim>\<open>int\<close> and is optional, but its serializer and its converter are the ones the
  providers give for \<^verbatim>\<open>str\<close>; for \<^verbatim>\<open>int\<close> the provider gives another one, which the
  parameter \<^verbatim>\<open>a: int\<close> is bound to.
\<close>

theorem build_attribute_Optional_int_gets_str_converter:
  "build_attribute (Foo_builder [] id) (typed_param ''a'' (T_Union [T_int, T_NoneType]) None) =
     Inr \<lparr>python_name = ''a'', json_name = ''a'', declared_type = T_int, optional = True,
          serializer = T_str, parser = T_str\<rparr> \<and>
   parser_provider (Foo_builder [] id) T_int (PycksonModelBuilder.cls (Foo_builder [] id)) ''a'' = Inr T_int \<and>
   build_attribute (Foo_builder [] id) (typed_param ''a'' T_int None) =
     Inr \<lparr>python_name = ''a'', json_name = ''a'', declared_type = T_int, optional = False,
          serializer = T_int, parser = T_int\<rparr>"
  by (simp add: build_attribute_def make_attribute_def Foo_builder_def typed_param_def
      tag_provider_def is_optional_type_def union_params_def)

lemma build_attribute_names:
  "build_attribute b p = Inr a \<Longrightarrow> python_name a = name p \<and> json_name a = name_rule b (name p)"
  by (auto simp: build_attribute_def make_attribute_def Let_def split: if_splits sum.splits option.splits)

lemma build_attributes_names:
  "build_attributes b ps acc = Inr attrs \<Longrightarrow>
   map json_name attrs = map json_name acc @ map (name_rule b) (filter (\<lambda>n. n \<noteq> ''self'') (map name ps)) \<and>
   map python_name attrs = map python_name acc @ filter (\<lambda>n. n \<noteq> ''self'') (map name ps)"
proof (induction ps arbitrary: acc)
  case Nil
  then show ?case by simp
next
  case (Cons p ps)
  show ?case
  proof (cases "name p = ''self''")
    case True
    with Cons show ?thesis by simp
  next
    case False
    with Cons.prems obtain a where a: "build_attribute b p = Inr a"
      and rest: "build_attributes b ps (acc @ [a]) = Inr attrs"
      by (auto split: sum.splits)
    from Cons.IH [OF rest] build_attribute_names [OF a] False show ?thesis by simp
  qed
qed

lemma build_attributes_all_ok:
  "(\<forall>p \<in> set ps. name p = ''self'' \<or> (\<exists>a. build_attribute b p = Inr a)) \<Longrightarrow>
   \<exists>attrs. build_attributes b ps acc = Inr attrs"
proof (induction ps arbitrary: acc)
  case Nil
  then show ?case by simp
next
  case (Cons p ps)
  then have rest: "\<And>acc'. \<exists>attrs. build_attributes b ps acc' = Inr attrs" by simp
  show ?case
  proof (cases "name p = ''self''")
    case True
    with rest [of acc] show ?thesis by simp
  next
    case False
    with Cons.prems obtain a where "build_attribute b p = Inr a" by auto
    with False rest [of "acc @ [a]"] show ?thesis by simp
  qed
qed

lemma PycksonModel_init_Inr:
  "PycksonModel_init attrs = Inr m \<Longrightarrow> attributes m = attrs \<and> distinct (map json_name attrs)"
  by (auto simp: PycksonModel_init_def split: if_splits)

lemma build_model_Inr:
  "build_model b = Inr m \<Longrightarrow>
   \<exists>ps. find_constructor b = Inr (Function ps) \<and> build_attributes b ps [] = Inr (attributes m) \<and>
        distinct (map json_name (attributes m))"
proof -
  assume m: "build_model b = Inr m"
  then obtain c where c: "find_constructor b = Inr c"
    by (auto simp: build_model_def split: sum.splits)
  with m obtain ps where ps: "c = Function ps"
    by (cases c) (auto simp: build_model_def signature_def)
  with m c obtain attrs where attrs: "build_attributes b ps [] = Inr attrs"
    and init: "PycksonModel_init attrs = Inr m"
    by (auto simp: build_model_unfold split: sum.splits)
  from PycksonModel_init_Inr [OF init] attrs c ps show ?thesis by auto
qed

text \<open>
  C1. Every model that \<^verbatim>\<open>build_model\<close> returns has pairwise distinct external names. For
  a class with two fields whose external names collide (the name rule, applied to the
  parameter names other than \<^verbatim>\<open>self\<close>, gives a name twice) \<^verbatim>\<open>build_model\<close> never returns a
  model; when every attribute of such a class can be built, the failure is the
  \<^verbatim>\<open>ConfigurationError\<close> raised when the model is assembled.
\<close>

theorem build_model_unique_external_names:
  "(build_model b = Inr m \<longrightarrow> distinct (map json_name (attributes m))) \<and>
   (find_constructor b = Inr (Function ps) \<and>
    \<not> distinct (map (name_rule b) (filter (\<lambda>n. n \<noteq> ''self'') (map name ps))) \<longrightarrow>
      (\<exists>e. build_model b = Inl e)) \<and>
   (find_constructor b = Inr (Function ps) \<and>
    (\<forall>p \<in> set ps. name p = ''self'' \<or> (\<exists>a. build_attribute b p = Inr a)) \<and>
    \<not> distinct (map (name_rule b) (filter (\<lambda>n. n \<noteq> ''self'') (map name ps))) \<longrightarrow>
      build_model b = Inl (ConfigurationError [Lit ''duplicate external name'']))"
proof (intro conjI impI)
  assume "build_model b = Inr m"
  from build_model_Inr [OF this] show "distinct (map json_name (attributes m))" by blast
next
  assume h: "find_constructor b = Inr (Function ps) \<and>
    \<not> distinct (map (name_rule b) (filter (\<lambda>n. n \<noteq> ''self'') (map name ps)))"
  show "\<exists>e. build_model b = Inl e"
  proof (cases "build_attributes b ps []")
    case (Inl e)
    with h show ?thesis by (simp add: build_model_unfold)
  next
    case (Inr attrs)
    from build_attributes_names [OF Inr] h have "\<not> distinct (map json_name attrs)" by simp
    with Inr h show ?thesis by (simp add: build_model_unfold PycksonModel_init_def)
  qed
next
  assume h: "find_constructor b = Inr (Function ps) \<and>
    (\<forall>p \<in> set ps. name p = ''self'' \<or> (\<exists>a. build_attribute b p = Inr a)) \<and>
    \<not> distinct (map (name_rule b) (filter (\<lambda>n. n \<noteq> ''self'') (map name ps)))"
  then obtain attrs where attrs: "build_attributes b ps [] = Inr attrs"
    using build_attributes_all_ok [of ps b "[]"] by blast
  from build_attributes_names [OF attrs] h have "\<not> distinct (map json_name attrs)" by simp
  with attrs h show "build_model b = Inl (ConfigurationError [Lit ''duplicate external name''])"
    by (simp add: build_model_unfold PycksonModel_init_def)
qed

text \<open>
  With a name rule that removes underscores, the class with the parameters \<^verbatim>\<open>a_b\<close> and
  \<^verbatim>\<open>ab\<close> gets no model; with the identity rule, the class with the parameters \<^verbatim>\<open>a\<close> and
  \<^verbatim>\<open>b\<close> gets the model with these two external names.
\<close>

theorem build_model_unique_external_names_witness:
  "build_model (Foo_builder [self_param, typed_param ''a_b'' T_str None, typed_param ''ab'' T_str None]
      drop_underscores) = Inl (ConfigurationError [Lit ''duplicate external name'']) \<and>
   build_model (Foo_builder [self_param, typed_param ''a'' T_str None, typed_param ''b'' T_str None] id)
     = Inr \<lparr>attributes =
       [\<lparr>python_name = ''a'', json_name = ''a'', declared_type = T_str, optional = False,
          serializer = T_str, parser = T_str\<rparr>,
        \<lparr>python_name = ''b'', json_name = ''b'', declared_type = T_str, optional = False,
          serializer = T_str, parser = T_str\<rparr>]\<rparr> \<and>
   distinct [''a'', ''b'']"
proof -
  let ?ps = "[self_param, typed_param ''a_b'' T_str None, typed_param ''ab'' T_str None]"
  let ?b = "Foo_builder ?ps drop_underscores"
  let ?qs = "[self_param, typed_param ''a'' T_str None, typed_param ''b'' T_str None]"
  let ?c = "Foo_builder ?qs id"
  let ?m = "\<lparr>attributes =
       [\<lparr>python_name = ''a'', json_name = ''a'', declared_type = T_str, optional = False,
          serializer = T_str, parser = T_str\<rparr>,
        \<lparr>python_name = ''b'', json_name = ''b'', declared_type = T_str, optional = False,
          serializer = T_str, parser = T_str\<rparr>]\<rparr>"
  have built: "\<forall>p \<in> set ?ps. name p = ''self'' \<or> (\<exists>a. build_attribute ?b p = Inr a)"
    by (simp add: build_attribute_plain self_param_def untyped_param_def)
  have rule: "name_rule ?b = drop_underscores"
    by (simp add: Foo_builder_def)
  have collide: "\<not> distinct (map (name_rule ?b) (filter (\<lambda>n. n \<noteq> ''self'') (map name ?ps)))"
    unfolding rule by (simp add: self_param_def untyped_param_def typed_param_def drop_underscores_def)
  from build_model_unique_external_names [of ?b ?m ?ps] find_constructor_Foo [of ?ps drop_underscores]
    built collide
  have first: "build_model ?b = Inl (ConfigurationError [Lit ''duplicate external name''])"
    by blast
  have second: "build_model ?c = Inr ?m"
    by (simp add: build_model_unfold [OF find_constructor_Foo] build_attribute_plain self_param_def
        untyped_param_def PycksonModel_init_def, simp add: typed_param_def)
  with build_model_unique_external_names [of ?c ?m ?qs]
  have "distinct (map json_name (attributes ?m))" by blast
  then have third: "distinct [''a'', ''b'']" by simp
  from first second third show ?thesis by blast
qed

end
